theory Spec2Isabelle
  imports Complex_Main "HOL-Library.List_Lexorder" "HOL-Library.Char_ord" "HOL-Library.Multiset"
begin

section \<open>Python strings and floats as used by the trader\<close>

text \<open>
  A Python string is modelled as a list of characters, a character being a code point
  below 256 (ASCII and the Latin-1 supplement); text with other code points is outside
  the model. On these code points \<open>py_isspace\<close> is \<^verbatim>\<open>str.isspace\<close>: the ASCII white
  space, the separators U+001C to U+001F, the next-line control U+0085 and the no-break
  space U+00A0. \<open>py_lower\<close> is \<^verbatim>\<open>str.lower\<close>. \<open>py_upper\<close> is \<^verbatim>\<open>str.upper\<close>, the sharp s
  (U+00DF) becoming \<^verbatim>\<open>SS\<close>, for every character but two: the capitals of the micro sign
  (U+00B5) and of the y with diaeresis (U+00FF) have code points above 255, and these two
  characters are left as they are.
\<close>

definition py_isspace :: "char \<Rightarrow> bool" where
  "py_isspace c =
     (let n = (of_char c :: nat)
      in (9 \<le> n \<and> n \<le> 13) \<or> (28 \<le> n \<and> n \<le> 32) \<or> n = 133 \<or> n = 160)"

definition py_upper_char :: "char \<Rightarrow> string" where
  "py_upper_char c =
     (let n = (of_char c :: nat)
      in if (97 \<le> n \<and> n \<le> 122) \<or> (224 \<le> n \<and> n \<le> 254 \<and> n \<noteq> 247) then [char_of (n - 32)]
         else if n = 223 then ''SS''
         else [c])"

definition py_upper :: "string \<Rightarrow> string" where
  "py_upper s = concat (map py_upper_char s)"

definition py_lower_char :: "char \<Rightarrow> char" where
  "py_lower_char c =
     (let n = (of_char c :: nat)
      in if (65 \<le> n \<and> n \<le> 90) \<or> (192 \<le> n \<and> n \<le> 222 \<and> n \<noteq> 215) then char_of (n + 32)
         else c)"

definition py_lower :: "string \<Rightarrow> string" where
  "py_lower s = map py_lower_char s"

definition py_strip :: "string \<Rightarrow> string" where
  "py_strip s = rev (dropWhile py_isspace (rev (dropWhile py_isspace s)))"

text \<open>
  A Python float is modelled by the real number it denotes. The machine rounds the result
  of every arithmetic operation, so in the tracker, the ledger, the DCA block and the
  orchestrator the four operations are arguments of the model, gathered in the record
  \<open>float_ops\<close> with the value \<open>f_lit\<close> that a decimal literal of the source denotes.
  Comparisons, \<^verbatim>\<open>min\<close>, \<^verbatim>\<open>max\<close> and the sign change are exact in Python and are those of
  the real numbers here. Infinities and NaN are outside the model except in the signal
  files. The trailing exit and the cost basis are stated over the arithmetic of the real
  numbers.
\<close>

record float_ops =
  f_add :: "real \<Rightarrow> real \<Rightarrow> real"
  f_sub :: "real \<Rightarrow> real \<Rightarrow> real"
  f_mul :: "real \<Rightarrow> real \<Rightarrow> real"
  f_div :: "real \<Rightarrow> real \<Rightarrow> real"
  f_lit :: "real \<Rightarrow> real"

text \<open>
  Rounding is monotone: of two minuends the larger gives the larger rounded difference.
\<close>

definition rounding_monotone :: "float_ops \<Rightarrow> bool" where
  "rounding_monotone ops = (\<forall>a b c. a \<le> b \<longrightarrow> f_sub ops a c \<le> f_sub ops b c)"

text \<open>
  The operations without rounding error. They are the machine's operations on all
  arguments whose exact result is a double, which is the case in the examples of this
  theory where a result is compared with a threshold. The three literals of the source
  that are not doubles denote the nearest double: \<^verbatim>\<open>1e-6\<close>, \<^verbatim>\<open>1e-12\<close> and \<^verbatim>\<open>0.005\<close>.
\<close>

definition exact_ops :: float_ops where
  "exact_ops =
     \<lparr>f_add = (\<lambda>a b. a + b), f_sub = (\<lambda>a b. a - b),
      f_mul = (\<lambda>a b. a * b), f_div = (\<lambda>a b. a / b),
      f_lit = (\<lambda>x. if x = 1 / 10 ^ 6 then 4722366482869645 / 2 ^ 72
                    else if x = 1 / 10 ^ 12 then 4951760157141521 / 2 ^ 92
                    else if x = 5 / 1000 then 5764607523034235 / 2 ^ 60
                    else x)\<rparr>"

section \<open>Symbol normalisation\<close>

text \<open>Symbols are normalised everywhere with \<^verbatim>\<open>str(x).upper().strip()\<close>.\<close>

definition norm_symbol :: "string \<Rightarrow> string" where
  "norm_symbol s = py_strip (py_upper s)"

section \<open>Rate and cooldown tracker\<close>

text \<open>
  \<^verbatim>\<open>self._dca_buy_ts\<close>, \<^verbatim>\<open>self._dca_last_sell_ts\<close> and \<^verbatim>\<open>self.dca_window_seconds\<close>
  of \<^verbatim>\<open>CryptoAPITrading\<close>. The clock reading \<^verbatim>\<open>time.time()\<close> that the source takes
  when no timestamp is passed is an argument of the model.
\<close>

record dca_tracker =
  dca_buy_ts :: "string \<rightharpoonup> real list"
  dca_last_sell_ts :: "string \<rightharpoonup> real"
  dca_window_seconds :: real

definition buy_ts_of :: "dca_tracker \<Rightarrow> string \<Rightarrow> real list" where
  "buy_ts_of tr k = (case dca_buy_ts tr k of None \<Rightarrow> [] | Some l \<Rightarrow> l)"

definition last_sell_of :: "dca_tracker \<Rightarrow> string \<Rightarrow> real" where
  "last_sell_of tr k = (case dca_last_sell_ts tr k of None \<Rightarrow> 0 | Some v \<Rightarrow> v)"

definition dca_window_count :: "float_ops \<Rightarrow> dca_tracker \<Rightarrow> string \<Rightarrow> real \<Rightarrow> nat \<times> dca_tracker" where
  "dca_window_count ops tr base_symbol now_ts =
     (let base = norm_symbol base_symbol in
      if base = [] then (0, tr)
      else
        let cutoff = f_sub ops now_ts (dca_window_seconds tr);
            last_sell = last_sell_of tr base;
            ts_list = filter (\<lambda>t. t > last_sell \<and> t \<ge> cutoff) (buy_ts_of tr base)
        in (length ts_list, tr\<lparr>dca_buy_ts := (dca_buy_ts tr)(base \<mapsto> ts_list)\<rparr>))"

definition note_dca_buy :: "float_ops \<Rightarrow> dca_tracker \<Rightarrow> string \<Rightarrow> real \<Rightarrow> dca_tracker" where
  "note_dca_buy ops tr base_symbol ts =
     (let base = norm_symbol base_symbol in
      if base = [] then tr
      else
        let tr1 = tr\<lparr>dca_buy_ts := (dca_buy_ts tr)(base \<mapsto> buy_ts_of tr base @ [ts])\<rparr>
        in snd (dca_window_count ops tr1 base ts))"

definition reset_dca_window_for_trade :: "dca_tracker \<Rightarrow> string \<Rightarrow> bool \<Rightarrow> real \<Rightarrow> dca_tracker" where
  "reset_dca_window_for_trade tr base_symbol sold ts =
     (let base = norm_symbol base_symbol in
      if base = [] then tr
      else
        let tr1 = (if sold then tr\<lparr>dca_last_sell_ts := (dca_last_sell_ts tr)(base \<mapsto> ts)\<rparr> else tr)
        in tr1\<lparr>dca_buy_ts := (dca_buy_ts tr1)(base \<mapsto> [])\<rparr>)"

text \<open>A run of \<^verbatim>\<open>_note_dca_buy\<close> calls, oldest first.\<close>

fun note_dca_buys :: "float_ops \<Rightarrow> dca_tracker \<Rightarrow> string \<Rightarrow> real list \<Rightarrow> dca_tracker" where
  "note_dca_buys ops tr base_symbol [] = tr"
| "note_dca_buys ops tr base_symbol (ts # tss) =
     note_dca_buys ops (note_dca_buy ops tr base_symbol ts) base_symbol tss"

section \<open>Accounting ledger\<close>

text \<open>
  \<^verbatim>\<open>self._pnl_ledger\<close> and \<^verbatim>\<open>CryptoAPITrading._record_trade\<close>. The ledger keeps the
  cumulative realised profit and, per base symbol, the USD cost and quantity of the open
  position; \<^verbatim>\<open>pending_orders\<close> is not touched by \<^verbatim>\<open>_record_trade\<close> and is left out.
  An optional argument of the source (\<^verbatim>\<open>None\<close> by default) is an \<open>option\<close>. The
  floating-point operations are the argument \<open>ops\<close>.
\<close>

text \<open>\<^verbatim>\<open>str(symbol or "").upper().split("-")[0].strip()\<close>\<close>

definition ledger_base :: "string \<Rightarrow> string" where
  "ledger_base symbol = py_strip (takeWhile (\<lambda>c. c \<noteq> CHR ''-'') (py_upper symbol))"

record position =
  usd_cost :: real
  qty :: real

record pnl_ledger =
  total_realized_profit_usd :: real
  open_positions :: "string \<rightharpoonup> position"

text \<open>The fields of the trade-history entry that \<^verbatim>\<open>_record_trade\<close> computes.\<close>

record trade_entry =
  entry_side :: string
  entry_symbol :: string
  entry_qty :: real
  entry_tag :: "string option"
  realized_profit_usd :: "real option"
  position_cost_used_usd :: "real option"
  position_cost_after_usd :: "real option"

text \<open>
  The block \<^emph>\<open>Exact USD-based accounting\<close>: it runs when the base symbol is not empty
  and a buying-power delta was passed. It returns the ledger with
  \<open>(realized, position_cost_used, position_cost_after)\<close>.
\<close>

definition record_trade_exact ::
  "float_ops \<Rightarrow> pnl_ledger \<Rightarrow> string \<Rightarrow> string \<Rightarrow> real \<Rightarrow> real
     \<Rightarrow> pnl_ledger \<times> real option \<times> real option \<times> real option" where
  "record_trade_exact ops ledger side_l base q bp_delta =
     (let pos = (case open_positions ledger base of
                   None \<Rightarrow> \<lparr>usd_cost = 0, qty = 0\<rparr>
                 | Some p \<Rightarrow> p);
          pos_usd_cost = usd_cost pos;
          pos_qty = qty pos
      in
      if side_l = ''buy'' then
        let usd_used = (if - bp_delta < 0 then 0 else - bp_delta);
            pos' = \<lparr>usd_cost = f_add ops pos_usd_cost usd_used,
                    qty = f_add ops pos_qty (if q > 0 then q else 0)\<rparr>
        in (ledger\<lparr>open_positions := (open_positions ledger)(base \<mapsto> pos')\<rparr>,
            None, None, Some (usd_cost pos'))
      else if side_l = ''sell'' then
        let usd_got = (if bp_delta < 0 then 0 else bp_delta);
            frac = (if pos_qty > 0 \<and> q > 0 then min 1 (f_div ops q pos_qty) else 1);
            cost_used = f_mul ops pos_usd_cost frac;
            pos' = \<lparr>usd_cost = f_sub ops pos_usd_cost cost_used,
                    qty = f_sub ops pos_qty (if q > 0 then q else 0)\<rparr>;
            realized = f_sub ops usd_got cost_used;
            total = f_add ops (total_realized_profit_usd ledger) realized;
            open_pos = (if qty pos' \<le> f_lit ops (1 / 10 ^ 12) \<or> usd_cost pos' \<le> f_lit ops (1 / 10 ^ 6)
                        then (open_positions ledger)(base := None)
                        else (open_positions ledger)(base \<mapsto> pos'))
        in (ledger\<lparr>total_realized_profit_usd := total, open_positions := open_pos\<rparr>,
            Some realized, Some cost_used, Some (usd_cost pos'))
      else
        (ledger\<lparr>open_positions := (open_positions ledger)(base \<mapsto> pos)\<rparr>, None, None, None))"

definition record_trade ::
  "float_ops \<Rightarrow> pnl_ledger \<Rightarrow> string \<Rightarrow> string \<Rightarrow> real \<Rightarrow> real option \<Rightarrow> real option
     \<Rightarrow> string option \<Rightarrow> real option \<Rightarrow> real option \<Rightarrow> pnl_ledger \<times> trade_entry" where
  "record_trade ops ledger side symbol q price avg_cost_basis tag fees_usd buying_power_delta =
     (let side_l = py_strip (py_lower side);
          base = ledger_base symbol;
          (ledger1, realized1, position_cost_used, position_cost_after) =
            (case buying_power_delta of
               Some bp_delta \<Rightarrow>
                 if base \<noteq> [] then record_trade_exact ops ledger side_l base q bp_delta
                 else (ledger, None, None, None)
             | None \<Rightarrow> (ledger, None, None, None));
          (ledger2, realized2) =
            (case (realized1, price, avg_cost_basis) of
               (None, Some p, Some acb) \<Rightarrow>
                 if side_l = ''sell'' then
                   let fee_val = (case fees_usd of Some f \<Rightarrow> f | None \<Rightarrow> 0);
                       realized = f_sub ops (f_mul ops (f_sub ops p acb) q) fee_val
                   in (ledger1\<lparr>total_realized_profit_usd :=
                                   f_add ops (total_realized_profit_usd ledger1) realized\<rparr>,
                       Some realized)
                 else (ledger1, realized1)
             | _ \<Rightarrow> (ledger1, realized1))
      in (ledger2,
          \<lparr>entry_side = side, entry_symbol = symbol, entry_qty = q, entry_tag = tag,
           realized_profit_usd = realized2,
           position_cost_used_usd = position_cost_used,
           position_cost_after_usd = position_cost_after\<rparr>))"

section \<open>Trailing exit state machine\<close>

text \<open>
  The per-coin dictionary \<^verbatim>\<open>self.trailing_pm[symbol]\<close> and the block
  \<^emph>\<open>Trailing profit margin\<close> of \<^verbatim>\<open>manage_trades\<close>, for one held coin on one tick.
  The settings are \<^verbatim>\<open>self.trailing_gap_pct\<close>, \<^verbatim>\<open>self.pm_start_pct_no_dca\<close> and
  \<^verbatim>\<open>self.pm_start_pct_with_dca\<close>; the answer of \<^verbatim>\<open>place_sell_order\<close> (an order
  dictionary or \<^verbatim>\<open>None\<close>) is the argument \<open>sell_ok\<close>.
\<close>

record trail_settings =
  trailing_gap_pct :: real
  pm_start_pct_no_dca :: real
  pm_start_pct_with_dca :: real

record trail_state =
  active :: bool
  line :: real
  peak :: real
  was_above :: bool
  settings_sig :: "real \<times> real \<times> real"

definition settings_sig_of :: "trail_settings \<Rightarrow> real \<times> real \<times> real" where
  "settings_sig_of S = (trailing_gap_pct S, pm_start_pct_no_dca S, pm_start_pct_with_dca S)"


text \<open>
  Fetching the state: a missing state, or one built under other settings, is replaced by
  a fresh one on the base line; an inactive state follows the base line; an active one is
  lifted to the base line when it lies below it.
\<close>

definition trail_prepare :: "trail_settings \<Rightarrow> real \<Rightarrow> trail_state option \<Rightarrow> trail_state" where
  "trail_prepare S base_line st_opt =
     (let fresh = \<lparr>active = False, line = base_line, peak = 0, was_above = False,
                    settings_sig = settings_sig_of S\<rparr>
      in case st_opt of
           None \<Rightarrow> fresh
         | Some state \<Rightarrow>
             if settings_sig state \<noteq> settings_sig_of S then fresh
             else
               let state1 = state\<lparr>settings_sig := settings_sig_of S\<rparr>
               in if \<not> active state1 then state1\<lparr>line := base_line\<rparr>
                  else if line state1 < base_line then state1\<lparr>line := base_line\<rparr>
                  else state1)"

text \<open>Activation, peak update and the upward move of the line.\<close>

definition trail_update :: "trail_settings \<Rightarrow> real \<Rightarrow> real \<Rightarrow> trail_state \<Rightarrow> trail_state" where
  "trail_update S base_line current_sell_price state =
     (let trail_gap = trailing_gap_pct S / 100;
          above_now = (current_sell_price \<ge> line state);
          state1 = (if \<not> active state \<and> above_now
                    then state\<lparr>active := True, peak := current_sell_price\<rparr> else state)
      in if active state1 then
           let state2 = (if current_sell_price > peak state1
                         then state1\<lparr>peak := current_sell_price\<rparr> else state1);
               new_line0 = peak state2 * (1 - trail_gap);
               new_line = (if new_line0 < base_line then base_line else new_line0)
           in if new_line > line state2 then state2\<lparr>line := new_line\<rparr> else state2
         else state1)"






section \<open>Cost basis reconstructor\<close>

text \<open>
  \<^verbatim>\<open>CryptoAPITrading.calculate_cost_basis\<close>. An order is the dictionary built by
  \<^verbatim>\<open>get_orders\<close>; an execution is a pair of quantity and effective price. The three
  exchange look-ups are arguments: the holdings (\<^verbatim>\<open>None\<close> when the call failed), the
  order list per product and the ask prices of \<^verbatim>\<open>get_price\<close> (\<open>None\<close> when it raised).
\<close>

record order =
  order_side :: string
  order_state :: string
  created_at :: string
  executions :: "(real \<times> real) list"

text \<open>
  What \<^verbatim>\<open>get_orders\<close> makes of one order of the exchange: the status is mapped to the
  internal state and the fill becomes one execution when size and price are both
  positive numbers. A field that does not parse as a number is \<open>None\<close>.
\<close>

definition state_map :: "string \<Rightarrow> string" where
  "state_map status =
     (if status = ''filled'' then ''filled''
      else if status = ''cancelled'' \<or> status = ''canceled'' \<or> status = ''expired'' then ''canceled''
      else if status = ''failed'' then ''failed''
      else if status = ''pending'' \<or> status = ''open'' then ''pending''
      else status)"

definition normalize_order :: "string \<Rightarrow> string \<Rightarrow> string \<Rightarrow> real option \<Rightarrow> real option \<Rightarrow> order" where
  "normalize_order status side_raw created_time filled_size average_filled_price =
     \<lparr>order_side = py_lower side_raw,
      order_state = state_map (py_lower status),
      created_at = created_time,
      executions =
        (case (filled_size, average_filled_price) of
           (Some fq, Some fp) \<Rightarrow> if fq > 0 \<and> fp > 0 then [(fq, fp)] else []
         | _ \<Rightarrow> [])\<rparr>"






text \<open>
  The specification, in the words of the design: the fills of the filled buy orders are
  taken newest first; the \<open>i\<close>-th fill is matched with as much of its quantity as the
  holding still needs after the fills before it; what no fill accounts for is valued at
  the fallback price; the average is the total over the held quantity.
\<close>

definition spec_lifo_matched :: "real \<Rightarrow> (real \<times> real) list \<Rightarrow> nat \<Rightarrow> real" where
  "spec_lifo_matched held fills i =
     min (fst (fills ! i)) (max 0 (held - (\<Sum>j<i. fst (fills ! j))))"



section \<open>DCA escalation state machine\<close>

text \<open>
  The DCA block of \<^verbatim>\<open>manage_trades\<close> for one held coin on one tick. The stage list is
  \<^verbatim>\<open>self.dca_levels_triggered.get(symbol, [])\<close>. A tick supplies what the block reads
  from outside: the buy-side profit percentage, the position value, the buying power, the
  long signal level returned by \<^verbatim>\<open>_read_long_dca_signal\<close>, the three clock readings
  (inside \<^verbatim>\<open>_dca_window_count\<close>, for the cooldown, inside \<^verbatim>\<open>_note_dca_buy\<close>) and
  whether \<^verbatim>\<open>place_buy_order\<close> returned an order.
\<close>

datatype py_error =
  IndexError | AttributeError | FileNotFoundError | ValueError | OverflowError | KeyError | InvalidToken

datatype skip_reason = Limit24h | Cooldown | InsufficientFunds















text \<open>
  The stage as the docstring of \<^verbatim>\<open>initialize_dca_levels\<close> words it, without the sorting:
  the filled buys of the current trade are those created after the most recent filled
  sell (all of them when there is no filled sell), and the stage is the number of them
  created after the first.
\<close>

definition history_trade_buys :: "order list \<Rightarrow> order list" where
  "history_trade_buys orders =
     (let buys = filter (\<lambda>ord. order_state ord = ''filled'' \<and> order_side ord = ''buy'') orders;
          sells = filter (\<lambda>ord. order_state ord = ''filled'' \<and> order_side ord = ''sell'') orders
      in if sells = [] then buys
         else filter (\<lambda>ord. Max (set (map created_at sells)) < created_at ord) buys)"

definition history_stage_count :: "order list \<Rightarrow> nat" where
  "history_stage_count orders =
     (let buys = history_trade_buys orders
      in if buys = [] then 0
         else length (filter (\<lambda>ord. Min (set (map created_at buys)) < created_at ord) buys))"
section \<open>Tick orchestrator\<close>



text \<open>
  The command file of the GUI, when it holds a dictionary: the action, the symbol and the
  amount as \<^verbatim>\<open>float\<close> reads it (\<open>None\<close> when \<^verbatim>\<open>float\<close> raises).
\<close>

record manual_command =
  mc_action :: string
  mc_symbol :: string
  mc_amount_usd :: "real option"

text \<open>
  What the exchange answers during one recomputation of the cost basis and of the DCA
  stages: the holdings at the call of \<^verbatim>\<open>calculate_cost_basis\<close> and at the call of
  \<^verbatim>\<open>initialize_dca_levels\<close>, the order lists and the ask prices.
\<close>

record history_view =
  hv_holdings_for_cost_basis :: "(string \<times> real) list option"
  hv_holdings_for_dca_levels :: "(string \<times> real) list option"
  hv_orders :: "string \<Rightarrow> order list option"
  hv_ask_prices :: "string \<Rightarrow> (string \<rightharpoonup> real) option"

record exchange =
  ex_manual_command :: "manual_command option"
  ex_manual_buy_ok :: bool
  ex_manual_sell_ok :: bool
  ex_manual_holdings :: "(string \<times> real) list option"
  ex_now_manual_sell :: real
  ex_manual_history :: history_view
  ex_holdings :: "(string \<times> real) list option"
  ex_holdings_refetch :: "nat \<Rightarrow> (string \<times> real) list option"
  ex_prices :: "string \<rightharpoonup> (real \<times> real)"
  ex_buying_power :: real
  ex_total_account_value :: real
  ex_trading_pairs :: bool
  ex_long_signal :: "string \<Rightarrow> int"
  ex_short_signal :: "string \<Rightarrow> int"
  ex_sell_ok :: "string \<Rightarrow> bool"
  ex_dca_buy_ok :: "string \<Rightarrow> bool"
  ex_entry_buy_ok :: "string \<Rightarrow> bool"
  ex_now_window :: "string \<Rightarrow> real"
  ex_now_cooldown :: "string \<Rightarrow> real"
  ex_now_buy :: "string \<Rightarrow> real"
  ex_now_sell :: "string \<Rightarrow> real"
  ex_now_entry :: "string \<Rightarrow> real"
  ex_history :: history_view

text \<open>
  The observable outputs of a tick, in the order in which they happen: entries of the
  signal log, orders sent to the exchange, records appended to the trade history by
  \<^verbatim>\<open>_record_trade\<close>, the recomputation of the cost basis with the re-initialisation of the
  DCA stages, the line appended to the account-value history and the status file.
\<close>

datatype signal_action = TRAIL_SELL | HOLD | DCA_SKIP skip_reason | DCA | SKIP | ENTRY

datatype effect =
    SignalLogged string signal_action
  | SellOrderPlaced string real
  | BuyOrderPlaced string real
  | TradeRecorded string string
  | CostBasisRecomputed
  | DcaLevelsInitialized
  | AccountValueAppended
  | StatusWritten





























text \<open>
  Three kinds of output: a record appended to the trade history, the recomputation after
  a trade, and the two files written at the end of the tick.
\<close>

fun is_trade_record :: "effect \<Rightarrow> bool" where
  "is_trade_record (TradeRecorded side_name product) = True"
| "is_trade_record other = False"

fun is_recompute :: "effect \<Rightarrow> bool" where
  "is_recompute CostBasisRecomputed = True"
| "is_recompute DcaLevelsInitialized = True"
| "is_recompute other = False"

fun is_status_output :: "effect \<Rightarrow> bool" where
  "is_status_output AccountValueAppended = True"
| "is_status_output StatusWritten = True"
| "is_status_output other = False"

section \<open>Concrete ticks\<close>



definition example_orders :: "order list" where
  "example_orders =
     [\<lparr>order_side = ''buy'', order_state = ''filled'', created_at = ''2024-01-01T10:00:00Z'',
        executions = [(1, 130)]\<rparr>,
      \<lparr>order_side = ''buy'', order_state = ''filled'', created_at = ''2024-01-02T10:00:00Z'',
        executions = [(2, 127)]\<rparr>]"

definition example_dca_order :: order where
  "example_dca_order =
     \<lparr>order_side = ''buy'', order_state = ''filled'', created_at = ''2024-01-03T10:00:00Z'',
      executions = [(6, 116)]\<rparr>"

definition example_history :: history_view where
  "example_history =
     \<lparr>hv_holdings_for_cost_basis = Some [(''BTC'', 9)],
      hv_holdings_for_dca_levels = Some [(''BTC'', 9)],
      hv_orders = (\<lambda>product. if product = ''BTC-USD'' then Some (example_dca_order # example_orders)
                              else None),
      hv_ask_prices = (\<lambda>product. Some [''BTC-USD'' \<mapsto> 233 / 2])\<rparr>"

definition example_exchange :: exchange where
  "example_exchange =
     \<lparr>ex_manual_command = None,
      ex_manual_buy_ok = False,
      ex_manual_sell_ok = False,
      ex_manual_holdings = None,
      ex_now_manual_sell = 1704276000,
      ex_manual_history = example_history,
      ex_holdings = Some [(''BTC'', 3)],
      ex_holdings_refetch = (\<lambda>n. Some [(''BTC'', 3)]),
      ex_prices = [''BTC-USD'' \<mapsto> (233 / 2, 116)],
      ex_buying_power = 1000,
      ex_total_account_value = 1348,
      ex_trading_pairs = True,
      ex_long_signal = (\<lambda>coin. 0),
      ex_short_signal = (\<lambda>coin. 0),
      ex_sell_ok = (\<lambda>product. True),
      ex_dca_buy_ok = (\<lambda>product. True),
      ex_entry_buy_ok = (\<lambda>product. True),
      ex_now_window = (\<lambda>coin. 1704276000),
      ex_now_cooldown = (\<lambda>coin. 1704276000),
      ex_now_buy = (\<lambda>coin. 1704276003),
      ex_now_sell = (\<lambda>coin. 1704276003),
      ex_now_entry = (\<lambda>coin. 1704276003),
      ex_history = example_history\<rparr>"

definition quiet_exchange :: exchange where
  "quiet_exchange = example_exchange\<lparr>ex_prices := [''BTC-USD'' \<mapsto> (128, 255 / 2)]\<rparr>"



section \<open>External signal files\<close>

text \<open>
  The static readers \<^verbatim>\<open>_read_long_dca_signal\<close>, \<^verbatim>\<open>_read_short_dca_signal\<close> and
  \<^verbatim>\<open>_read_long_price_levels\<close>. The files give for a path its text, or the
  exception that \<^verbatim>\<open>open\<close> or \<^verbatim>\<open>read\<close> raises for it (a missing file, say). Three builtins of Python are arguments of the model:
  \<^verbatim>\<open>float\<close> applied to a string (\<open>None\<close> when it raises \<^verbatim>\<open>ValueError\<close>), which may
  return an infinity or a NaN, and \<^verbatim>\<open>list.sort(reverse=True)\<close> on floats, which never
  raises. A reader returns \<open>Inr\<close> of its value; \<open>Inl\<close> would be an exception leaving it.
\<close>

datatype py_float = Finite real | PosInf | NegInf | NaN

record signal_files =
  sf_base_paths :: "string \<rightharpoonup> string"
  sf_main_dir :: string
  sf_files :: "string \<Rightarrow> py_error + string"
  sf_float :: "string \<Rightarrow> py_float option"
  sf_sort_reverse :: "py_float list \<Rightarrow> py_float list"

text \<open>\<^verbatim>\<open>os.path.join\<close> of two components on a POSIX system.\<close>

definition path_join :: "string \<Rightarrow> string \<Rightarrow> string" where
  "path_join a b =
     (if b \<noteq> [] \<and> hd b = CHR ''/'' then b
      else if a = [] \<or> last a = CHR ''/'' then a @ b
      else a @ ''/'' @ b)"

definition signal_folder :: "signal_files \<Rightarrow> string \<Rightarrow> string" where
  "signal_folder env coin =
     (case sf_base_paths env coin of
        Some folder \<Rightarrow> folder
      | None \<Rightarrow> if coin = ''BTC'' then sf_main_dir env else path_join (sf_main_dir env) coin)"

text \<open>\<^verbatim>\<open>int(x)\<close> of a float truncates towards zero and raises on an infinity or a NaN.\<close>

definition py_int_of_float :: "py_float \<Rightarrow> py_error + int" where
  "py_int_of_float x =
     (case x of
        Finite r \<Rightarrow> Inr (if r \<ge> 0 then \<lfloor>r\<rfloor> else \<lceil>r\<rceil>)
      | PosInf \<Rightarrow> Inl OverflowError
      | NegInf \<Rightarrow> Inl OverflowError
      | NaN \<Rightarrow> Inl ValueError)"

text \<open>The body of the \<^verbatim>\<open>try\<close> block of the two level readers.\<close>

definition read_level_body :: "signal_files \<Rightarrow> string \<Rightarrow> py_error + int" where
  "read_level_body env path =
     (case sf_files env path of
        Inl err \<Rightarrow> Inl err
      | Inr text \<Rightarrow>
          (case sf_float env (py_strip text) of
             None \<Rightarrow> Inl ValueError
           | Some x \<Rightarrow> py_int_of_float x))"

definition read_dca_signal_file :: "signal_files \<Rightarrow> string \<Rightarrow> string \<Rightarrow> py_error + int" where
  "read_dca_signal_file env file_name coin_name =
     (let coin = py_strip (py_upper coin_name);
          path = path_join (signal_folder env coin) file_name
      in Inr (case read_level_body env path of Inl err \<Rightarrow> 0 | Inr val \<Rightarrow> val))"

definition read_long_dca_signal :: "signal_files \<Rightarrow> string \<Rightarrow> py_error + int" where
  "read_long_dca_signal env coin_name = read_dca_signal_file env ''long_dca_signal.txt'' coin_name"

definition read_short_dca_signal :: "signal_files \<Rightarrow> string \<Rightarrow> py_error + int" where
  "read_short_dca_signal env coin_name = read_dca_signal_file env ''short_dca_signal.txt'' coin_name"

text \<open>
  The price levels: the text is stripped, freed from surrounding brackets, cut at commas,
  semicolons, bars and white space; the parts that \<^verbatim>\<open>float\<close> accepts are kept, in
  order, without a value whose rounding to twelve decimals was seen before, and sorted
  from high to low.
\<close>

definition py_strip_chars :: "string \<Rightarrow> string \<Rightarrow> string" where
  "py_strip_chars cs s =
     rev (dropWhile (\<lambda>c. c \<in> set cs) (rev (dropWhile (\<lambda>c. c \<in> set cs) s)))"

definition separators_to_space :: "string \<Rightarrow> string" where
  "separators_to_space s =
     map (\<lambda>c. if c = CHR '','' \<or> c = CHR '';'' \<or> c = CHR ''|'' \<or> c = CHR 0x0A \<or> c = CHR 0x09
               then CHR '' '' else c) s"

fun py_split_from :: "string \<Rightarrow> string \<Rightarrow> string list" where
  "py_split_from [] word = (if word = [] then [] else [rev word])"
| "py_split_from (c # cs) word =
     (if py_isspace c
      then (if word = [] then py_split_from cs [] else rev word # py_split_from cs [])
      else py_split_from cs (c # word))"

definition py_split :: "string \<Rightarrow> string list" where
  "py_split s = py_split_from s []"

definition round_half_even :: "real \<Rightarrow> int" where
  "round_half_even x =
     (let f = \<lfloor>x\<rfloor>; d = x - of_int f
      in if d < 1 / 2 then f else if d > 1 / 2 then f + 1 else if even f then f else f + 1)"

definition py_round12 :: "py_float \<Rightarrow> py_float" where
  "py_round12 x =
     (case x of
        Finite r \<Rightarrow> Finite (of_int (round_half_even (r * 10 ^ 12)) / 10 ^ 12)
      | other \<Rightarrow> other)"

text \<open>Membership in the set \<^verbatim>\<open>seen\<close>: a NaN is equal to nothing.\<close>

definition py_float_in :: "py_float \<Rightarrow> py_float list \<Rightarrow> bool" where
  "py_float_in k seen = (k \<noteq> NaN \<and> k \<in> set seen)"

fun dedupe_levels :: "py_float list \<Rightarrow> py_float list \<Rightarrow> py_float list" where
  "dedupe_levels [] seen = []"
| "dedupe_levels (v # vals) seen =
     (let k = py_round12 v
      in if py_float_in k seen then dedupe_levels vals seen
         else v # dedupe_levels vals (k # seen))"

definition read_levels_body :: "signal_files \<Rightarrow> string \<Rightarrow> py_error + py_float list" where
  "read_levels_body env path =
     (case sf_files env path of
        Inl err \<Rightarrow> Inl err
      | Inr text \<Rightarrow>
          (let raw = py_strip text in
           if raw = [] then Inr []
           else
             (let parts = filter (\<lambda>p. p \<noteq> [])
                            (py_split (separators_to_space (py_strip_chars ''[]()'' (py_strip raw))));
                  vals = List.map_filter (sf_float env) parts
              in Inr (sf_sort_reverse env (dedupe_levels vals [])))))"

definition read_long_price_levels :: "signal_files \<Rightarrow> string \<Rightarrow> py_error + py_float list" where
  "read_long_price_levels env coin_name =
     (let coin = py_strip (py_upper coin_name);
          path = path_join (signal_folder env coin) ''low_bound_prices.html''
      in Inr (case read_levels_body env path of Inl err \<Rightarrow> [] | Inr out \<Rightarrow> out))"

text \<open>
  A concrete set of files: a level file for BTC, an unparseable one for ETH, no short
  level file, and a list of price levels. The number parser knows the four numbers that
  occur and the sort orders finite values from high to low.
\<close>

fun finite_value :: "py_float \<Rightarrow> real" where
  "finite_value (Finite r) = r"
| "finite_value other = 0"

definition example_signal_files :: signal_files where
  "example_signal_files =
     \<lparr>sf_base_paths = Map.empty,
      sf_main_dir = ''/bot'',
      sf_files = (\<lambda>path.
         if path = ''/bot/long_dca_signal.txt'' then Inr '' 5.7 ''
         else if path = ''/bot/ETH/long_dca_signal.txt'' then Inr ''n/a''
         else if path = ''/bot/low_bound_prices.html'' then Inr ''[1, 3; 2 | x, 3]''
         else Inl FileNotFoundError),
      sf_float = (\<lambda>s.
         if s = ''5.7'' then Some (Finite (57 / 10))
         else if s = ''1'' then Some (Finite 1)
         else if s = ''2'' then Some (Finite 2)
         else if s = ''3'' then Some (Finite 3)
         else None),
      sf_sort_reverse = (\<lambda>xs. rev (sort_key finite_value xs))\<rparr>"

section \<open>Credential store\<close>

text \<open>
  \<^verbatim>\<open>pt_creds.encrypt_credentials\<close> and \<^verbatim>\<open>pt_creds.decrypt_credentials\<close>. Byte strings
  and texts are both lists of characters, a byte string of its bytes and a text of its
  code points; \<^verbatim>\<open>encode\<close> and \<^verbatim>\<open>decode\<close> belong to the library functions next to
  which the source calls them. The functions of the libraries that the module calls are
  gathered in the record \<open>crypto_lib\<close>: PBKDF2-HMAC-SHA256 with its fixed length and
  iteration count, URL-safe base64, Fernet encryption (which draws a time stamp and an
  initialisation vector, the argument \<open>nonce\<close>) and decryption, and the JSON writer
  and reader for the dictionary of key and secret. The salt that \<^verbatim>\<open>os.urandom(16)\<close>
  returns is an argument. The files are a map from path to content.
\<close>

record crypto_lib =
  lib_pbkdf2 :: "string \<Rightarrow> string \<Rightarrow> string"
  lib_b64encode :: "string \<Rightarrow> string"
  lib_fernet_encrypt :: "string \<Rightarrow> string \<Rightarrow> string \<Rightarrow> py_error + string"
  lib_fernet_decrypt :: "string \<Rightarrow> string \<Rightarrow> py_error + string"
  lib_json_dumps :: "string \<Rightarrow> string \<Rightarrow> string"
  lib_json_loads :: "string \<Rightarrow> py_error + (string \<rightharpoonup> string)"

definition bind_err :: "py_error + 'a \<Rightarrow> ('a \<Rightarrow> py_error + 'b) \<Rightarrow> py_error + 'b" where
  "bind_err x f = (case x of Inl err \<Rightarrow> Inl err | Inr v \<Rightarrow> f v)"

text \<open>\<^verbatim>\<open>bytes.hex()\<close> and \<^verbatim>\<open>bytes.fromhex\<close>, which skips white space between bytes.\<close>

definition ascii_isspace :: "char \<Rightarrow> bool" where
  "ascii_isspace c = (let n = (of_char c :: nat) in (9 \<le> n \<and> n \<le> 13) \<or> n = 32)"

definition hex_digit :: "nat \<Rightarrow> char" where
  "hex_digit n = (if n < 10 then char_of (48 + n) else char_of (87 + n))"

definition hex_value :: "char \<Rightarrow> nat option" where
  "hex_value c =
     (let m = (of_char c :: nat)
      in if 48 \<le> m \<and> m \<le> 57 then Some (m - 48)
         else if 97 \<le> m \<and> m \<le> 102 then Some (m - 87)
         else if 65 \<le> m \<and> m \<le> 70 then Some (m - 55)
         else None)"

definition bytes_hex :: "string \<Rightarrow> string" where
  "bytes_hex bs =
     concat (map (\<lambda>b. [hex_digit ((of_char b :: nat) div 16), hex_digit ((of_char b :: nat) mod 16)]) bs)"

fun bytes_fromhex :: "string \<Rightarrow> py_error + string" where
  "bytes_fromhex [] = Inr []"
| "bytes_fromhex [c] = (if ascii_isspace c then Inr [] else Inl ValueError)"
| "bytes_fromhex (c # d # rest) =
     (if ascii_isspace c then bytes_fromhex (d # rest)
      else (case (hex_value c, hex_value d) of
              (Some h, Some l) \<Rightarrow>
                bind_err (bytes_fromhex rest) (\<lambda>bs. Inr (char_of (16 * h + l) # bs))
            | other \<Rightarrow> Inl ValueError))"

definition derive_key :: "crypto_lib \<Rightarrow> string \<Rightarrow> string \<Rightarrow> string" where
  "derive_key lib passphrase salt = lib_b64encode lib (lib_pbkdf2 lib passphrase salt)"

definition read_file :: "(string \<rightharpoonup> string) \<Rightarrow> string \<Rightarrow> py_error + string" where
  "read_file files path = (case files path of None \<Rightarrow> Inl FileNotFoundError | Some content \<Rightarrow> Inr content)"

definition lookup_key :: "(string \<rightharpoonup> string) \<Rightarrow> string \<Rightarrow> py_error + string" where
  "lookup_key data k = (case data k of None \<Rightarrow> Inl KeyError | Some v \<Rightarrow> Inr v)"

definition encrypt_credentials ::
  "crypto_lib \<Rightarrow> (string \<rightharpoonup> string) \<Rightarrow> string \<Rightarrow> string \<Rightarrow> string \<Rightarrow> string \<Rightarrow> string \<Rightarrow> string
     \<Rightarrow> py_error + (string \<rightharpoonup> string)" where
  "encrypt_credentials lib files base_dir passphrase api_key api_secret salt nonce =
     (let fernet_key = derive_key lib passphrase salt;
          payload = lib_json_dumps lib api_key api_secret
      in bind_err (lib_fernet_encrypt lib fernet_key nonce payload)
           (\<lambda>token.
              let salt_path = path_join base_dir ''cb_credentials.salt'';
                  enc_path = path_join base_dir ''cb_credentials.enc'';
                  files1 = files(salt_path \<mapsto> bytes_hex salt)
              in Inr (files1(enc_path \<mapsto> token))))"

definition decrypt_credentials ::
  "crypto_lib \<Rightarrow> (string \<rightharpoonup> string) \<Rightarrow> string \<Rightarrow> string \<Rightarrow> py_error + (string \<times> string)" where
  "decrypt_credentials lib files base_dir passphrase =
     (let salt_path = path_join base_dir ''cb_credentials.salt'';
          enc_path = path_join base_dir ''cb_credentials.enc''
      in bind_err (read_file files salt_path) (\<lambda>salt_text.
         bind_err (bytes_fromhex (py_strip salt_text)) (\<lambda>salt.
         bind_err (read_file files enc_path) (\<lambda>token.
         bind_err (lib_fernet_decrypt lib (derive_key lib passphrase salt) token) (\<lambda>payload.
         bind_err (lib_json_loads lib payload) (\<lambda>data.
         bind_err (lookup_key data ''key'') (\<lambda>k.
         bind_err (lookup_key data ''secret'') (\<lambda>s. Inr (k, s)))))))))"

text \<open>
  What the module relies on in the libraries: with a derived key the encryption returns a
  token, decryption under the same key returns the plaintext of a token, and the JSON
  reader returns the dictionary that the writer was given.
\<close>

definition library_contract :: "crypto_lib \<Rightarrow> bool" where
  "library_contract lib =
     ((\<forall>passphrase salt nonce payload.
          \<exists>token. lib_fernet_encrypt lib (derive_key lib passphrase salt) nonce payload = Inr token)
      \<and> (\<forall>fernet_key nonce payload token.
            lib_fernet_encrypt lib fernet_key nonce payload = Inr token
            \<longrightarrow> lib_fernet_decrypt lib fernet_key token = Inr payload)
      \<and> (\<forall>api_key api_secret.
            lib_json_loads lib (lib_json_dumps lib api_key api_secret)
              = Inr [''key'' \<mapsto> api_key, ''secret'' \<mapsto> api_secret]))"

text \<open>
  A small library that meets the contract, for running the store: the token is the key
  followed by the plaintext, and the dictionary is written with the length of the key in
  front.
\<close>

definition toy_lib :: crypto_lib where
  "toy_lib =
     \<lparr>lib_pbkdf2 = (\<lambda>passphrase salt. passphrase @ salt),
      lib_b64encode = (\<lambda>raw. raw),
      lib_fernet_encrypt = (\<lambda>fernet_key nonce payload. Inr (fernet_key @ payload)),
      lib_fernet_decrypt = (\<lambda>fernet_key token.
         if take (length fernet_key) token = fernet_key
         then Inr (drop (length fernet_key) token) else Inl InvalidToken),
      lib_json_dumps = (\<lambda>api_key api_secret.
         replicate (length api_key) CHR ''k'' @ ''|'' @ api_key @ api_secret),
      lib_json_loads = (\<lambda>text.
         let n = length (takeWhile (\<lambda>c. c = CHR ''k'') text);
             rest = drop (Suc n) text
         in Inr [''key'' \<mapsto> take n rest, ''secret'' \<mapsto> drop n rest])\<rparr>"

section \<open>Symbol normalisation\<close>

lemma upper_char_space: "py_isspace c \<Longrightarrow> py_upper_char c = [c]"
  by (auto simp: py_upper_char_def py_isspace_def Let_def)

lemma upper_char_no_space:
  "\<not> py_isspace c \<Longrightarrow> py_upper_char c \<noteq> [] \<and> \<not> py_isspace (hd (py_upper_char c))"
  by (auto simp: py_upper_char_def py_isspace_def Let_def)

lemma upper_char_rev: "rev (py_upper_char c) = py_upper_char c"
  by (simp add: py_upper_char_def Let_def)

lemma upper_char_idem: "py_upper (py_upper_char c) = py_upper_char c"
  by (auto simp: py_upper_def py_upper_char_def Let_def)

lemma py_upper_idem: "py_upper (py_upper s) = py_upper s"
proof (induction s)
  case Nil
  then show ?case by (simp add: py_upper_def)
next
  case (Cons c s)
  have "py_upper (py_upper (c # s)) = py_upper (py_upper_char c) @ py_upper (py_upper s)"
    by (simp add: py_upper_def)
  also have "\<dots> = py_upper_char c @ py_upper s"
    by (simp add: upper_char_idem Cons)
  also have "\<dots> = py_upper (c # s)"
    by (simp add: py_upper_def)
  finally show ?case .
qed

lemma py_upper_rev: "rev (py_upper s) = py_upper (rev s)"
  by (induction s) (simp_all add: py_upper_def upper_char_rev)

lemma py_upper_dropWhile: "dropWhile py_isspace (py_upper s) = py_upper (dropWhile py_isspace s)"
proof (induction s)
  case Nil
  then show ?case by (simp add: py_upper_def)
next
  case (Cons c s)
  show ?case
  proof (cases "py_isspace c")
    case True
    then show ?thesis using Cons by (simp add: py_upper_def upper_char_space)
  next
    case False
    then obtain d ds where d: "py_upper_char c = d # ds" "\<not> py_isspace d"
      using upper_char_no_space[of c] by (cases "py_upper_char c") auto
    then show ?thesis using False by (simp add: py_upper_def)
  qed
qed

lemma py_upper_strip: "py_upper (py_strip s) = py_strip (py_upper s)"
  by (simp add: py_strip_def py_upper_dropWhile py_upper_rev)

lemma dropWhile_rev_head:
  assumes "ys = [] \<or> \<not> P (hd ys)"
  shows "dropWhile P (rev (dropWhile P (rev ys))) = rev (dropWhile P (rev ys))"
proof (cases ys)
  case Nil
  then show ?thesis by simp
next
  case (Cons y ys')
  with assms have ny: "\<not> P y" by simp
  have "\<exists>zs. dropWhile P (rev ys' @ [y]) = zs @ [y]"
  proof (cases "\<forall>x\<in>set (rev ys'). P x")
    case True
    then have "dropWhile P (rev ys' @ [y]) = [] @ [y]" using ny by (simp add: dropWhile_append)
    then show ?thesis by blast
  next
    case False
    then have "dropWhile P (rev ys' @ [y]) = dropWhile P (rev ys') @ [y]"
      by (simp add: dropWhile_append)
    then show ?thesis by blast
  qed
  then obtain zs where zs: "dropWhile P (rev ys' @ [y]) = zs @ [y]" by blast
  show ?thesis using Cons ny zs by simp
qed

lemma py_strip_idem: "py_strip (py_strip s) = py_strip s"
proof -
  have "dropWhile py_isspace s = [] \<or> \<not> py_isspace (hd (dropWhile py_isspace s))"
    by (cases "dropWhile py_isspace s = []") (auto simp: hd_dropWhile)
  then show ?thesis
    by (simp add: py_strip_def dropWhile_rev_head)
qed

lemma norm_symbol_idem: "norm_symbol (norm_symbol s) = norm_symbol s"
  by (simp add: norm_symbol_def py_upper_strip py_upper_idem py_strip_idem)

lemma norm_symbol_btc: "norm_symbol ''btc'' = ''BTC''"
  by code_simp

lemma exact_ops_monotone: "rounding_monotone exact_ops"
  by (simp add: rounding_monotone_def exact_ops_def)

section \<open>Rate and cooldown tracker: window counts\<close>

lemma window_count_fst:
  "norm_symbol s \<noteq> [] \<Longrightarrow> fst (dca_window_count ops tr s now) =
     length (filter (\<lambda>t. last_sell_of tr (norm_symbol s) < t \<and> f_sub ops now (dca_window_seconds tr) \<le> t) (buy_ts_of tr (norm_symbol s)))"
  by (simp add: dca_window_count_def Let_def)

lemma window_count_snd:
  "norm_symbol s \<noteq> [] \<Longrightarrow> snd (dca_window_count ops tr s now) =
     tr\<lparr>dca_buy_ts := (dca_buy_ts tr)(norm_symbol s \<mapsto>
        filter (\<lambda>t. last_sell_of tr (norm_symbol s) < t \<and> f_sub ops now (dca_window_seconds tr) \<le> t) (buy_ts_of tr (norm_symbol s)))\<rparr>"
  by (simp add: dca_window_count_def Let_def)

lemma window_count_blank: "norm_symbol s = [] \<Longrightarrow> dca_window_count ops tr s now = (0, tr)"
  by (simp add: dca_window_count_def)

lemma note_dca_buy_blank: "norm_symbol s = [] \<Longrightarrow> note_dca_buy ops tr s ts = tr"
  by (simp add: note_dca_buy_def)

lemma note_dca_buys_blank: "norm_symbol s = [] \<Longrightarrow> note_dca_buys ops tr s tss = tr"
  by (induction tss arbitrary: tr) (simp_all add: note_dca_buy_blank)

lemma reset_sold_count:
  "fst (dca_window_count ops (reset_dca_window_for_trade tr s True t) s now) = 0"
  by (simp add: dca_window_count_def reset_dca_window_for_trade_def Let_def buy_ts_of_def)

lemma reset_fields:
  "norm_symbol s \<noteq> [] \<Longrightarrow>
   buy_ts_of (reset_dca_window_for_trade tr s sold t) (norm_symbol s) = [] \<and>
   last_sell_of (reset_dca_window_for_trade tr s sold t) (norm_symbol s) = (if sold then t else last_sell_of tr (norm_symbol s)) \<and>
   dca_window_seconds (reset_dca_window_for_trade tr s sold t) = dca_window_seconds tr"
  by (simp add: reset_dca_window_for_trade_def Let_def buy_ts_of_def last_sell_of_def)

lemma note_dca_buy_fields:
  assumes "norm_symbol s \<noteq> []"
  shows "buy_ts_of (note_dca_buy ops tr s ts) (norm_symbol s) =
           filter (\<lambda>u. last_sell_of tr (norm_symbol s) < u \<and> f_sub ops ts (dca_window_seconds tr) \<le> u) (buy_ts_of tr (norm_symbol s) @ [ts])"
    and "last_sell_of (note_dca_buy ops tr s ts) (norm_symbol s) = last_sell_of tr (norm_symbol s)"
    and "dca_window_seconds (note_dca_buy ops tr s ts) = dca_window_seconds tr"
  using assms
  by (simp_all add: note_dca_buy_def dca_window_count_def Let_def norm_symbol_idem buy_ts_of_def last_sell_of_def)

lemma note_dca_buys_keep:
  assumes b: "norm_symbol s \<noteq> []"
    and m: "rounding_monotone ops"
    and old: "\<forall>u\<in>set (buy_ts_of tr (norm_symbol s)). last_sell_of tr (norm_symbol s) < u \<and> f_sub ops now (dca_window_seconds tr) \<le> u"
    and new: "\<forall>u\<in>set tss. last_sell_of tr (norm_symbol s) < u \<and> f_sub ops now (dca_window_seconds tr) \<le> u \<and> u \<le> now"
  shows "buy_ts_of (note_dca_buys ops tr s tss) (norm_symbol s) = buy_ts_of tr (norm_symbol s) @ tss \<and>
         last_sell_of (note_dca_buys ops tr s tss) (norm_symbol s) = last_sell_of tr (norm_symbol s) \<and>
         dca_window_seconds (note_dca_buys ops tr s tss) = dca_window_seconds tr"
  using old new
proof (induction tss arbitrary: tr)
  case Nil
  then show ?case by simp
next
  case (Cons ts tss)
  let ?k = "norm_symbol s"
  let ?tr1 = "note_dca_buy ops tr s ts"
  have "ts \<le> now" using Cons.prems by simp
  then have cut: "f_sub ops ts (dca_window_seconds tr) \<le> f_sub ops now (dca_window_seconds tr)"
    using m by (simp add: rounding_monotone_def)
  have keep: "filter (\<lambda>u. last_sell_of tr ?k < u \<and> f_sub ops ts (dca_window_seconds tr) \<le> u) (buy_ts_of tr ?k @ [ts])
                = buy_ts_of tr ?k @ [ts]"
    using Cons.prems cut by (fastforce simp: filter_id_conv)
  have f1: "buy_ts_of ?tr1 ?k = buy_ts_of tr ?k @ [ts]"
    using note_dca_buy_fields(1)[OF b, of ops tr ts] keep by simp
  have f2: "last_sell_of ?tr1 ?k = last_sell_of tr ?k"
    by (rule note_dca_buy_fields(2)[OF b])
  have f3: "dca_window_seconds ?tr1 = dca_window_seconds tr"
    by (rule note_dca_buy_fields(3)[OF b])
  have "buy_ts_of (note_dca_buys ops ?tr1 s tss) ?k = buy_ts_of ?tr1 ?k @ tss \<and>
        last_sell_of (note_dca_buys ops ?tr1 s tss) ?k = last_sell_of ?tr1 ?k \<and>
        dca_window_seconds (note_dca_buys ops ?tr1 s tss) = dca_window_seconds ?tr1"
    using Cons.prems by (intro Cons.IH) (auto simp: f1 f2 f3)
  then show ?case by (simp add: f1 f2 f3)
qed

text \<open>
  Claim C7. For every symbol that has a name (its normalised form is not empty, as for
  every symbol the trader passes) and every time \<open>now\<close>: \<^verbatim>\<open>_dca_window_count\<close> returns
  the number of recorded DCA-buy timestamps that are strictly after the symbol's last-sell
  boundary and not older than the rolling window ending at \<open>now\<close>, and prunes the
  others; after \<^verbatim>\<open>_reset_dca_window_for_trade\<close> with \<open>sold = True\<close> it returns 0; after
  \<open>N\<close> further \<^verbatim>\<open>_note_dca_buy\<close> calls whose timestamps lie after the sell boundary and
  inside the window it returns exactly \<open>N\<close>; a reset with \<open>sold = False\<close> empties the
  buy list and leaves the sell boundaries as they were. The start of the window is the
  difference that the machine computes, \<open>f_sub ops now (dca_window_seconds tr)\<close>.
\<close>

theorem rate_window_counts:
  assumes b: "norm_symbol s \<noteq> []"
  shows "fst (dca_window_count ops tr s now) =
           length (filter (\<lambda>u. last_sell_of tr (norm_symbol s) < u \<and> f_sub ops now (dca_window_seconds tr) \<le> u)
                     (buy_ts_of tr (norm_symbol s)))
       \<and> buy_ts_of (snd (dca_window_count ops tr s now)) (norm_symbol s) =
           filter (\<lambda>u. last_sell_of tr (norm_symbol s) < u \<and> f_sub ops now (dca_window_seconds tr) \<le> u)
                     (buy_ts_of tr (norm_symbol s))
       \<and> fst (dca_window_count ops (reset_dca_window_for_trade tr s True t) s now) = 0
       \<and> (rounding_monotone ops
            \<and> (\<forall>u\<in>set tss. t < u \<and> f_sub ops now (dca_window_seconds tr) \<le> u \<and> u \<le> now) \<longrightarrow>
           fst (dca_window_count ops (note_dca_buys ops (reset_dca_window_for_trade tr s True t) s tss) s now)
             = length tss)
       \<and> buy_ts_of (reset_dca_window_for_trade tr s False t) (norm_symbol s) = []
       \<and> dca_last_sell_ts (reset_dca_window_for_trade tr s False t) = dca_last_sell_ts tr"
proof -
  let ?k = "norm_symbol s"
  have a1: "fst (dca_window_count ops tr s now) =
           length (filter (\<lambda>u. last_sell_of tr ?k < u \<and> f_sub ops now (dca_window_seconds tr) \<le> u) (buy_ts_of tr ?k))"
    by (rule window_count_fst[OF b])
  have a2: "buy_ts_of (snd (dca_window_count ops tr s now)) ?k =
           filter (\<lambda>u. last_sell_of tr ?k < u \<and> f_sub ops now (dca_window_seconds tr) \<le> u) (buy_ts_of tr ?k)"
    by (simp add: window_count_snd[OF b] buy_ts_of_def)
  have a3: "fst (dca_window_count ops (reset_dca_window_for_trade tr s True t) s now) = 0"
    by (rule reset_sold_count)
  have a4: "rounding_monotone ops
            \<and> (\<forall>u\<in>set tss. t < u \<and> f_sub ops now (dca_window_seconds tr) \<le> u \<and> u \<le> now) \<longrightarrow>
           fst (dca_window_count ops (note_dca_buys ops (reset_dca_window_for_trade tr s True t) s tss) s now)
             = length tss"
  proof
    assume hm: "rounding_monotone ops
            \<and> (\<forall>u\<in>set tss. t < u \<and> f_sub ops now (dca_window_seconds tr) \<le> u \<and> u \<le> now)"
    then have m: "rounding_monotone ops"
      and h: "\<forall>u\<in>set tss. t < u \<and> f_sub ops now (dca_window_seconds tr) \<le> u \<and> u \<le> now"
      by simp_all
    let ?r = "reset_dca_window_for_trade tr s True t"
    have r: "buy_ts_of ?r ?k = []" "last_sell_of ?r ?k = t" "dca_window_seconds ?r = dca_window_seconds tr"
      using reset_fields[OF b, of tr True t] by simp_all
    have k: "buy_ts_of (note_dca_buys ops ?r s tss) ?k = buy_ts_of ?r ?k @ tss \<and>
             last_sell_of (note_dca_buys ops ?r s tss) ?k = last_sell_of ?r ?k \<and>
             dca_window_seconds (note_dca_buys ops ?r s tss) = dca_window_seconds ?r"
      using h by (intro note_dca_buys_keep[OF b m, where now=now]) (simp_all add: r)
    have "filter (\<lambda>u. t < u \<and> f_sub ops now (dca_window_seconds tr) \<le> u) tss = tss"
      using h by (auto simp: filter_id_conv)
    then show "fst (dca_window_count ops (note_dca_buys ops ?r s tss) s now) = length tss"
      by (simp add: window_count_fst[OF b] k r)
  qed
  have a5: "buy_ts_of (reset_dca_window_for_trade tr s False t) ?k = []"
    using reset_fields[OF b, of tr False t] by simp
  have a6: "dca_last_sell_ts (reset_dca_window_for_trade tr s False t) = dca_last_sell_ts tr"
    using b by (simp add: reset_dca_window_for_trade_def Let_def)
  from a1 a2 a3 a4 a5 a6 show ?thesis by blast
qed

theorem rate_window_counts_witness:
  "norm_symbol ''btc'' \<noteq> [] \<and> rounding_monotone exact_ops
   \<and> fst (dca_window_count exact_ops
        \<lparr>dca_buy_ts = [''BTC'' \<mapsto> [50, 120, 150]], dca_last_sell_ts = [''BTC'' \<mapsto> 100], dca_window_seconds = 100\<rparr>
        ''btc'' 200) = 2
   \<and> fst (dca_window_count exact_ops (note_dca_buys exact_ops (reset_dca_window_for_trade
        \<lparr>dca_buy_ts = [''BTC'' \<mapsto> [50, 120, 150]], dca_last_sell_ts = [''BTC'' \<mapsto> 100], dca_window_seconds = 100\<rparr>
        ''btc'' True 130) ''btc'' [150, 160, 170]) ''btc'' 200) = 3"
proof -
  have x: "f_sub exact_ops 200 100 = 100"
    by (simp add: exact_ops_def)
  show ?thesis
    using rate_window_counts[of "''btc''" exact_ops
        "\<lparr>dca_buy_ts = [''BTC'' \<mapsto> [50, 120, 150]], dca_last_sell_ts = [''BTC'' \<mapsto> 100], dca_window_seconds = 100\<rparr>"
        200 130 "[150, 160, 170]"]
    by (simp add: norm_symbol_btc buy_ts_of_def last_sell_of_def exact_ops_monotone x)
qed

section \<open>Accounting ledger: sells\<close>

lemma side_sell: "py_strip (py_lower ''SELL'') = ''sell''" by code_simp
lemma side_sell2: "py_strip (py_lower ''sell'') = ''sell''" by code_simp
lemma base_btc: "ledger_base ''BTC-USD'' = ''BTC''" by code_simp

text \<open>
  Claim C1 (as amended). For a sell of the quantity \<open>q\<close> recorded with a balance delta
  against an open position of cost \<open>openCost\<close> and quantity \<open>openQty\<close>: the cost
  removed is \<open>openCost\<close> times the fraction \<open>min 1 (q / openQty)\<close>, the fraction being 1
  when the sold or the open quantity is not positive; the realised profit written to the
  entry and added to the cumulative total is the balance increase (the delta, or 0 when it
  is negative) minus the cost removed; and the symbol's \<^verbatim>\<open>open_positions\<close> entry is
  removed if and only if the resulting quantity is at most \<^verbatim>\<open>1e-12\<close> or the resulting
  cost is at most \<^verbatim>\<open>1e-6\<close>; otherwise it holds the reduced cost and quantity. Every
  operation is the machine's.
\<close>

theorem ledger_sell:
  assumes side: "py_strip (py_lower side) = ''sell''"
    and base: "ledger_base symbol \<noteq> []"
    and pos: "open_positions ledger (ledger_base symbol) = Some \<lparr>usd_cost = openCost, qty = openQty\<rparr>"
    and r: "record_trade ops ledger side symbol q price acb tag fees (Some delta) = (ledger', e)"
    and fr: "share = (if 0 < openQty \<and> 0 < q then min 1 (f_div ops q openQty) else 1)"
    and cr: "costRemoved = f_mul ops openCost share"
    and ca: "costAfter = f_sub ops openCost costRemoved"
    and qa: "qtyAfter = f_sub ops openQty (max 0 q)"
  shows "position_cost_used_usd e = Some costRemoved
       \<and> realized_profit_usd e = Some (f_sub ops (max 0 delta) costRemoved)
       \<and> total_realized_profit_usd ledger' =
           f_add ops (total_realized_profit_usd ledger) (f_sub ops (max 0 delta) costRemoved)
       \<and> (open_positions ledger' (ledger_base symbol) = None) =
           (qtyAfter \<le> f_lit ops (1 / 10 ^ 12) \<or> costAfter \<le> f_lit ops (1 / 10 ^ 6))
       \<and> (open_positions ledger' (ledger_base symbol) \<noteq> None \<longrightarrow>
            open_positions ledger' (ledger_base symbol) = Some \<lparr>usd_cost = costAfter, qty = qtyAfter\<rparr>)"
proof -
  have md: "(if delta < 0 then 0 else delta) = max 0 delta"
    by (simp add: max_def)
  have mq: "(if 0 < q then q else 0) = max 0 q"
    by (simp add: max_def)
  have x: "record_trade ops ledger side symbol q price acb tag fees (Some delta) =
           (ledger\<lparr>total_realized_profit_usd :=
                      f_add ops (total_realized_profit_usd ledger) (f_sub ops (max 0 delta) costRemoved),
                    open_positions :=
                      (if qtyAfter \<le> f_lit ops (1 / 10 ^ 12) \<or> costAfter \<le> f_lit ops (1 / 10 ^ 6)
                       then (open_positions ledger)(ledger_base symbol := None)
                       else (open_positions ledger)(ledger_base symbol \<mapsto>
                              \<lparr>usd_cost = costAfter, qty = qtyAfter\<rparr>))\<rparr>,
            \<lparr>entry_side = side, entry_symbol = symbol, entry_qty = q, entry_tag = tag,
             realized_profit_usd = Some (f_sub ops (max 0 delta) costRemoved),
             position_cost_used_usd = Some costRemoved,
             position_cost_after_usd = Some costAfter\<rparr>)"
    using side base pos
    by (simp add: record_trade_def record_trade_exact_def Let_def md mq fr cr ca qa)
  from x r have l: "ledger' = fst (record_trade ops ledger side symbol q price acb tag fees (Some delta))"
    and en: "e = snd (record_trade ops ledger side symbol q price acb tag fees (Some delta))"
    by simp_all
  show ?thesis
    unfolding l en x by simp
qed

theorem ledger_sell_witness:
  "py_strip (py_lower ''SELL'') = ''sell'' \<and> ledger_base ''BTC-USD'' \<noteq> []
   \<and> position_cost_used_usd (snd (record_trade exact_ops
         \<lparr>total_realized_profit_usd = 10, open_positions = [''BTC'' \<mapsto> \<lparr>usd_cost = 100, qty = 2\<rparr>]\<rparr>
         ''SELL'' ''BTC-USD'' 1 None None None None (Some 60))) = Some 50
   \<and> realized_profit_usd (snd (record_trade exact_ops
         \<lparr>total_realized_profit_usd = 10, open_positions = [''BTC'' \<mapsto> \<lparr>usd_cost = 100, qty = 2\<rparr>]\<rparr>
         ''SELL'' ''BTC-USD'' 1 None None None None (Some 60))) = Some 10
   \<and> total_realized_profit_usd (fst (record_trade exact_ops
         \<lparr>total_realized_profit_usd = 10, open_positions = [''BTC'' \<mapsto> \<lparr>usd_cost = 100, qty = 2\<rparr>]\<rparr>
         ''SELL'' ''BTC-USD'' 1 None None None None (Some 60))) = 20
   \<and> open_positions (fst (record_trade exact_ops
         \<lparr>total_realized_profit_usd = 10, open_positions = [''BTC'' \<mapsto> \<lparr>usd_cost = 100, qty = 2\<rparr>]\<rparr>
         ''SELL'' ''BTC-USD'' 1 None None None None (Some 60))) ''BTC'' = Some \<lparr>usd_cost = 50, qty = 1\<rparr>"
proof -
  let ?L = "\<lparr>total_realized_profit_usd = 10, open_positions = [''BTC'' \<mapsto> \<lparr>usd_cost = 100, qty = 2\<rparr>]\<rparr>"
  let ?R = "record_trade exact_ops ?L ''SELL'' ''BTC-USD'' 1 None None None None (Some 60)"
  have s: "py_strip (py_lower ''SELL'') = ''sell''" by (rule side_sell)
  have b: "ledger_base ''BTC-USD'' \<noteq> []" by (simp add: base_btc)
  have p: "open_positions ?L (ledger_base ''BTC-USD'') = Some \<lparr>usd_cost = 100, qty = 2\<rparr>"
    by (simp add: base_btc)
  have r: "?R = (fst ?R, snd ?R)" by simp
  have f: "(1 / 2 :: real) = (if 0 < (2::real) \<and> 0 < (1::real) then min 1 (f_div exact_ops 1 2) else 1)"
    by (simp add: exact_ops_def)
  have c: "(50::real) = f_mul exact_ops 100 (1 / 2)" by (simp add: exact_ops_def)
  have ca: "(50::real) = f_sub exact_ops 100 50" by (simp add: exact_ops_def)
  have qa: "(1::real) = f_sub exact_ops 2 (max 0 1)" by (simp add: exact_ops_def)
  have lits: "\<not> (1::real) \<le> f_lit exact_ops (1 / 10 ^ 12)" "\<not> (50::real) \<le> f_lit exact_ops (1 / 10 ^ 6)"
    by (simp_all add: exact_ops_def)
  have ar: "f_sub exact_ops 60 50 = 10" "f_add exact_ops 10 10 = 20"
    by (simp_all add: exact_ops_def)
  show ?thesis
    using ledger_sell[OF s b p r f c ca qa] s b lits by (simp add: base_btc ar)
qed

text \<open>
  The claim as first stated removes the entry only when quantity and cost are both dust.
  One unit was bought for 64 USD and all of it but \<open>2\<^sup>-\<^sup>2\<^sup>7\<close> is sold, the order
  quantity being 0.9999999925494194. That leaves a quantity of about \<^verbatim>\<open>7.45e-9\<close>, which
  is above the quantity threshold, and a cost of about \<^verbatim>\<open>4.77e-7\<close>; the source's test is
  a disjunction, so the entry is removed. Every intermediate result is a double.
\<close>

theorem ledger_sell_dust_counterexample:
  "open_positions (fst (record_trade exact_ops
         \<lparr>total_realized_profit_usd = 0, open_positions = [''BTC'' \<mapsto> \<lparr>usd_cost = 64, qty = 1\<rparr>]\<rparr>
         ''sell'' ''BTC-USD'' (1 - 1 / 2 ^ 27) None None None None (Some (127 / 2)))) ''BTC'' = None
   \<and> \<not> (f_sub exact_ops 1 (1 - 1 / 2 ^ 27) \<le> f_lit exact_ops (1 / 10 ^ 12)
         \<and> f_sub exact_ops 64 (f_mul exact_ops 64 (min 1 (f_div exact_ops (1 - 1 / 2 ^ 27) 1)))
             \<le> f_lit exact_ops (1 / 10 ^ 6))"
  by (simp add: record_trade_def record_trade_exact_def Let_def side_sell2 base_btc exact_ops_def)

section \<open>Trailing exit: the line while trailing\<close>










section \<open>Trailing exit: when the forced sell fires\<close>

lemma trail_prepare_sig [simp]: "settings_sig (trail_prepare S b s) = settings_sig_of S"
  by (auto simp: trail_prepare_def Let_def split: option.splits)





lemma trail_update_fields [simp]:
  "settings_sig (trail_update S b p st) = settings_sig st"
  "was_above (trail_update S b p st) = was_above st"
  by (auto simp: trail_update_def Let_def)














section \<open>Cost basis: LIFO matching\<close>



lemma lifo_total_Nil: "(\<Sum>i<length ([] :: (real \<times> real) list). spec_lifo_matched r [] i * snd ([] ! i)) = 0"
  by simp









lemma normalize_order_executions:
  "\<forall>e\<in>set (executions (normalize_order status side_raw created fq fp)). 0 < fst e \<and> 0 < snd e"
  by (auto simp: normalize_order_def split: option.splits)







section \<open>DCA escalation: the rate and cooldown gate\<close>






section \<open>External signal files: the readers never raise\<close>

text \<open>
  Claim C9. Whatever the signal files hold, and whether they can be opened at all, the
  three readers return a value and raise nothing: the long and short level readers return
  an integer, which is 0 when the file cannot be read, when its content is not a number
  for \<^verbatim>\<open>float\<close>, or when the number is an infinity or a NaN, and the truncated number
  otherwise; the price-level reader returns a list, which is empty when the file cannot
  be read or is blank.
\<close>

theorem signal_readers_total:
  assumes lp: "long_path = path_join (signal_folder env (py_strip (py_upper coin_name))) ''long_dca_signal.txt''"
    and sp: "short_path = path_join (signal_folder env (py_strip (py_upper coin_name))) ''short_dca_signal.txt''"
    and pp: "levels_path = path_join (signal_folder env (py_strip (py_upper coin_name))) ''low_bound_prices.html''"
  shows "(\<exists>v. read_long_dca_signal env coin_name = Inr v)
       \<and> (\<exists>v. read_short_dca_signal env coin_name = Inr v)
       \<and> (\<exists>out. read_long_price_levels env coin_name = Inr out)
       \<and> ((\<exists>err. sf_files env long_path = Inl err)
            \<or> (\<exists>text. sf_files env long_path = Inr text \<and> sf_float env (py_strip text) = None)
           \<longrightarrow> read_long_dca_signal env coin_name = Inr 0)
       \<and> ((\<exists>err. sf_files env short_path = Inl err)
            \<or> (\<exists>text. sf_files env short_path = Inr text \<and> sf_float env (py_strip text) = None)
           \<longrightarrow> read_short_dca_signal env coin_name = Inr 0)
       \<and> (\<forall>text r. sf_files env long_path = Inr text \<and> sf_float env (py_strip text) = Some (Finite r)
           \<longrightarrow> read_long_dca_signal env coin_name = Inr (if r \<ge> 0 then \<lfloor>r\<rfloor> else \<lceil>r\<rceil>))
       \<and> (\<forall>text x. sf_files env long_path = Inr text \<and> sf_float env (py_strip text) = Some x
              \<and> x \<in> {PosInf, NegInf, NaN}
           \<longrightarrow> read_long_dca_signal env coin_name = Inr 0)
       \<and> ((\<exists>err. sf_files env levels_path = Inl err)
            \<or> (\<exists>text. sf_files env levels_path = Inr text \<and> py_strip text = [])
           \<longrightarrow> read_long_price_levels env coin_name = Inr [])"
  by (auto simp: read_long_dca_signal_def read_short_dca_signal_def read_dca_signal_file_def
        read_long_price_levels_def read_level_body_def read_levels_body_def py_int_of_float_def
        lp sp pp Let_def split: sum.splits option.splits)

lemma example_paths:
  "path_join (signal_folder example_signal_files (py_strip (py_upper ''btc''))) ''long_dca_signal.txt''
     = ''/bot/long_dca_signal.txt''"
  "path_join (signal_folder example_signal_files (py_strip (py_upper ''eth''))) ''long_dca_signal.txt''
     = ''/bot/ETH/long_dca_signal.txt''"
  "path_join (signal_folder example_signal_files (py_strip (py_upper ''btc''))) ''short_dca_signal.txt''
     = ''/bot/short_dca_signal.txt''"
  by code_simp+

lemma example_files:
  "sf_files example_signal_files ''/bot/long_dca_signal.txt'' = Inr '' 5.7 ''"
  "sf_files example_signal_files ''/bot/ETH/long_dca_signal.txt'' = Inr ''n/a''"
  "sf_files example_signal_files ''/bot/short_dca_signal.txt'' = Inl FileNotFoundError"
  "sf_float example_signal_files (py_strip '' 5.7 '') = Some (Finite (57 / 10))"
  "sf_float example_signal_files (py_strip ''n/a'') = None"
  by code_simp+

lemma example_levels:
  "read_long_price_levels example_signal_files ''btc'' = Inr [Finite 3, Finite 2, Finite 1]"
  by code_simp

theorem signal_readers_total_witness:
  "read_long_dca_signal example_signal_files ''btc'' = Inr 5
   \<and> read_long_dca_signal example_signal_files ''eth'' = Inr 0
   \<and> read_short_dca_signal example_signal_files ''btc'' = Inr 0
   \<and> read_long_price_levels example_signal_files ''btc'' = Inr [Finite 3, Finite 2, Finite 1]"
proof -
  note b = signal_readers_total[OF refl refl refl, of example_signal_files "''btc''"]
  note e = signal_readers_total[OF refl refl refl, of example_signal_files "''eth''"]
  from b have "read_long_dca_signal example_signal_files ''btc''
                 = Inr (if (57 / 10 :: real) \<ge> 0 then \<lfloor>57 / 10 :: real\<rfloor> else \<lceil>57 / 10 :: real\<rceil>)"
    using example_paths(1) example_files(1) example_files(4) by metis
  moreover have "\<lfloor>57 / 10 :: real\<rfloor> = 5" by linarith
  moreover from e have "read_long_dca_signal example_signal_files ''eth'' = Inr 0"
    using example_paths(2) example_files(2) example_files(5) by metis
  moreover from b have "read_short_dca_signal example_signal_files ''btc'' = Inr 0"
    using example_paths(3) example_files(3) by metis
  ultimately show ?thesis using example_levels by simp
qed

section \<open>Credential store: round trip\<close>

lemma hex_value_digit: "n < 16 \<Longrightarrow> hex_value (hex_digit n) = Some n"
  by (auto simp: hex_value_def hex_digit_def Let_def)

lemma hex_digit_not_space: "n < 16 \<Longrightarrow> \<not> ascii_isspace (hex_digit n) \<and> \<not> py_isspace (hex_digit n)"
  by (auto simp: ascii_isspace_def py_isspace_def hex_digit_def Let_def)

lemma byte_nibbles:
  "(of_char b :: nat) div 16 < 16 \<and> (of_char b :: nat) mod 16 < 16
   \<and> char_of (16 * ((of_char b :: nat) div 16) + (of_char b :: nat) mod 16) = b"
proof -
  have "(of_char b :: nat) < 256" by (rule nat_of_char_less_256)
  then show ?thesis by (simp add: div_less_iff_less_mult mult_div_mod_eq)
qed

lemma bytes_fromhex_hex: "bytes_fromhex (bytes_hex bs) = Inr bs"
proof (induction bs)
  case Nil
  then show ?case by (simp add: bytes_hex_def)
next
  case (Cons b bs)
  have h: "bytes_hex (b # bs) =
             hex_digit ((of_char b :: nat) div 16) # hex_digit ((of_char b :: nat) mod 16) # bytes_hex bs"
    by (simp add: bytes_hex_def)
  show ?case
    using byte_nibbles[of b] Cons.IH
    by (simp add: h hex_value_digit hex_digit_not_space bind_err_def)
qed

lemma dropWhile_none: "\<forall>c\<in>set s. \<not> P c \<Longrightarrow> dropWhile P s = s"
  by (cases s) auto

lemma py_strip_no_space: "\<forall>c\<in>set s. \<not> py_isspace c \<Longrightarrow> py_strip s = s"
  by (simp add: py_strip_def dropWhile_none)

lemma bytes_hex_no_space: "\<forall>c\<in>set (bytes_hex bs). \<not> py_isspace c"
  using byte_nibbles by (auto simp: bytes_hex_def hex_digit_not_space)

lemma credential_paths_differ:
  "path_join base_dir ''cb_credentials.salt'' \<noteq> path_join base_dir ''cb_credentials.enc''"
  by (simp add: path_join_def)

text \<open>
  Claim C10. For every passphrase, API key and API secret (and every salt and
  initialisation vector drawn by the encryption), \<^verbatim>\<open>encrypt_credentials\<close> succeeds, and
  \<^verbatim>\<open>decrypt_credentials\<close> with the same passphrase and base directory, applied to the
  files it wrote, returns exactly the original pair. The libraries are taken with their
  contract: Fernet decryption inverts encryption under the same key, and the JSON reader
  inverts the writer. What the module itself contributes is proved: the salt comes back
  unchanged through its hexadecimal file, so both sides derive the same key, and the two
  files have different paths.
\<close>

theorem credentials_round_trip:
  assumes lib: "library_contract lib"
  shows "\<exists>files'. encrypt_credentials lib files base_dir passphrase api_key api_secret salt nonce = Inr files'
           \<and> decrypt_credentials lib files' base_dir passphrase = Inr (api_key, api_secret)"
proof -
  let ?k = "derive_key lib passphrase salt"
  let ?payload = "lib_json_dumps lib api_key api_secret"
  let ?sp = "path_join base_dir ''cb_credentials.salt''"
  let ?ep = "path_join base_dir ''cb_credentials.enc''"
  from lib obtain token where enc: "lib_fernet_encrypt lib ?k nonce ?payload = Inr token"
    unfolding library_contract_def by blast
  from lib enc have dec: "lib_fernet_decrypt lib ?k token = Inr ?payload"
    unfolding library_contract_def by blast
  from lib have js: "lib_json_loads lib ?payload = Inr [''key'' \<mapsto> api_key, ''secret'' \<mapsto> api_secret]"
    unfolding library_contract_def by blast
  let ?files' = "(files(?sp \<mapsto> bytes_hex salt))(?ep \<mapsto> token)"
  have e: "encrypt_credentials lib files base_dir passphrase api_key api_secret salt nonce = Inr ?files'"
    by (simp add: encrypt_credentials_def Let_def enc bind_err_def)
  have r1: "read_file ?files' ?sp = Inr (bytes_hex salt)"
    using credential_paths_differ[of base_dir] by (simp add: read_file_def)
  have r2: "read_file ?files' ?ep = Inr token"
    by (simp add: read_file_def)
  have hx: "bytes_fromhex (py_strip (bytes_hex salt)) = Inr salt"
    by (simp add: py_strip_no_space[OF bytes_hex_no_space] bytes_fromhex_hex)
  have d: "decrypt_credentials lib ?files' base_dir passphrase = Inr (api_key, api_secret)"
    unfolding decrypt_credentials_def Let_def r1 r2
    by (simp add: bind_err_def hx dec js lookup_key_def)
  from e d show ?thesis by blast
qed

lemma toy_lib_contract: "library_contract toy_lib"
  by (simp add: library_contract_def toy_lib_def derive_key_def Let_def takeWhile_append)

theorem credentials_round_trip_witness:
  "library_contract toy_lib
   \<and> decrypt_credentials toy_lib
        (projr (encrypt_credentials toy_lib Map.empty ''/home/bot'' ''hunter2'' ''KEY-1'' ''SECRET-1''
                  ''salt0123 456789z'' ''iv''))
        ''/home/bot'' ''hunter2''
      = Inr (''KEY-1'', ''SECRET-1'')"
proof -
  from credentials_round_trip[OF toy_lib_contract, of Map.empty "''/home/bot''" "''hunter2''"
      "''KEY-1''" "''SECRET-1''" "''salt0123 456789z''" "''iv''"]
  obtain files' where
    "encrypt_credentials toy_lib Map.empty ''/home/bot'' ''hunter2'' ''KEY-1'' ''SECRET-1''
        ''salt0123 456789z'' ''iv'' = Inr files'"
    "decrypt_credentials toy_lib files' ''/home/bot'' ''hunter2'' = Inr (''KEY-1'', ''SECRET-1'')"
    by blast
  then show ?thesis using toy_lib_contract by simp
qed

lemma bytes_hex_example: "bytes_hex ''salt0123 456789z'' = ''73616c7430313233203435363738397a''"
  by code_simp

end
